theory Spec2Isabelle
  imports Complex_Main
begin

section \<open>Python values, exceptions and the ambient library\<close>

text \<open>
  The repository is a small Python client of the Binance futures testnet:
  \<^verbatim>\<open>src/trading_bot.py\<close> (class \<^verbatim>\<open>BasicBot\<close> with \<^verbatim>\<open>test_connection\<close> and
  \<^verbatim>\<open>place_order\<close>, and the command line in \<^verbatim>\<open>main\<close>) and \<^verbatim>\<open>src/test_credentials.py\<close>
  (the stand-alone probe \<^verbatim>\<open>test_api_credentials\<close>).

  A Python float is either a finite number, an infinity or NaN. Finite floats are
  embedded in the reals: the code only compares them with zero and passes them on
  unchanged, so no rounding is involved.
\<close>

datatype pyfloat = Fin real | PInf | NInf | NaN

text \<open>The comparison \<^verbatim>\<open>x <= 0\<close> on floats; every comparison with NaN is false.\<close>

fun le_zero :: "pyfloat \<Rightarrow> bool" where
  "le_zero (Fin x) = (x \<le> 0)"
| "le_zero NInf = True"
| "le_zero PInf = False"
| "le_zero NaN = False"

datatype pyval =
    PyNone
  | PyBool bool
  | PyInt int
  | PyFloat pyfloat
  | PyStr string

text \<open>
  A dict keeps its insertion order, so it is an association list; assigning to a key
  replaces the value in place when the key exists and appends the pair otherwise.
\<close>

type_synonym pydict = "(string \<times> pyval) list"

fun setitem :: "pydict \<Rightarrow> string \<Rightarrow> pyval \<Rightarrow> pydict" where
  "setitem [] k v = [(k, v)]"
| "setitem ((k', v') # d) k v = (if k' = k then (k', v) # d else (k', v') # setitem d k v)"

text \<open>
  The exceptions that occur. \<^verbatim>\<open>BinanceAPIException\<close> carries the HTTP status code, the
  exchange's error code and the message. An instance of a subclass of one of the classes
  listed is modelled by that class, with its \<^verbatim>\<open>str()\<close>; \<open>OtherException\<close> stands for
  every instance of \<^verbatim>\<open>Exception\<close> that belongs to none of them (a transport error of the
  client library, an \<^verbatim>\<open>OverflowError\<close>), with its \<^verbatim>\<open>str()\<close>. Only instances of
  \<^verbatim>\<open>Exception\<close> are modelled: that is what the handlers of the code catch.
\<close>

datatype exn =
    ValueError string
  | TypeError string
  | KeyError string
  | RuntimeError string
  | BinanceAPIException int int string
  | OtherException string

definition sq :: string where
  "sq = [CHR 0x27]"

text \<open>Decimal rendering of an integer, as \<^verbatim>\<open>str(n)\<close> and \<^verbatim>\<open>{n}\<close> in an f-string give it.\<close>

fun str_nat :: "nat \<Rightarrow> string" where
  "str_nat n = (if n < 10 then [''0123456789'' ! n]
                else str_nat (n div 10) @ [''0123456789'' ! (n mod 10)])"

definition str_int :: "int \<Rightarrow> string" where
  "str_int i = (if i < 0 then ''-'' @ str_nat (nat (- i)) else str_nat (nat i))"

text \<open>
  \<^verbatim>\<open>str(e)\<close>: the message for an exception built from one string, the quoted key for a
  \<^verbatim>\<open>KeyError\<close>, and the library's \<^verbatim>\<open>'APIError(code=%s): %s'\<close> for a
  \<^verbatim>\<open>BinanceAPIException\<close>.
\<close>

fun str_exn :: "exn \<Rightarrow> string" where
  "str_exn (ValueError m) = m"
| "str_exn (TypeError m) = m"
| "str_exn (KeyError k) = sq @ k @ sq"
| "str_exn (RuntimeError m) = m"
| "str_exn (BinanceAPIException status_code code message) =
     ''APIError(code='' @ str_int code @ ''): '' @ message"
| "str_exn (OtherException m) = m"

text \<open>Subscription \<^verbatim>\<open>d[k]\<close> raises \<^verbatim>\<open>KeyError\<close> on a missing key.\<close>

definition getitem :: "pydict \<Rightarrow> string \<Rightarrow> exn + pyval" where
  "getitem d k = (case map_of d k of None \<Rightarrow> Inl (KeyError k) | Some v \<Rightarrow> Inr v)"

subsection \<open>What the code takes from outside the repository\<close>

text \<open>
  \<open>float_conv\<close> is the built-in \<^verbatim>\<open>float()\<close> on a value that is neither a float nor
  \<^verbatim>\<open>None\<close> (a string is parsed, and a malformed one raises \<^verbatim>\<open>ValueError\<close>); \<open>utc_time\<close>
  is \<^verbatim>\<open>time.strftime('%Y-%m-%d %H:%M:%S', time.gmtime(v/1000))\<close>, which raises on a
  value that is not a number or is out of range; \<open>elapsed_ms\<close> is the round trip of the
  ping as the clock measured it; \<open>upper_wide\<close> is \<^verbatim>\<open>str.upper()\<close> on one character outside
  ASCII, given and returned in UTF-8 (the Unicode case tables: sharp s becomes SS).
\<close>

record env =
  float_conv :: "pyval \<Rightarrow> exn + pyfloat"
  utc_time :: "pyval \<Rightarrow> exn + string"
  elapsed_ms :: pyfloat
  upper_wide :: "string \<Rightarrow> string"

definition py_float :: "env \<Rightarrow> pyval \<Rightarrow> exn + pyfloat" where
  "py_float e v =
     (case v of
        PyFloat x \<Rightarrow> Inr x
      | PyNone \<Rightarrow> Inl (TypeError
          (''float() argument must be a string or a real number, not '' @ sq @ ''NoneType'' @ sq))
      | _ \<Rightarrow> float_conv e v)"

text \<open>
  The exchange client: each remote call either returns its JSON answer or raises.
  The answer to an order may depend on the request.
\<close>

record client =
  futures_ping :: "exn + pydict"
  futures_time :: "exn + pydict"
  futures_account :: "exn + pydict"
  futures_account_balance :: "exn + pydict list"
  futures_create_order :: "pydict \<Rightarrow> exn + pydict"

subsection \<open>Strings\<close>

text \<open>
  A Python string is read as its UTF-8 encoding, so that a \<open>string\<close> holds any text:
  concatenation, equality and a test for an ASCII suffix are the same on the bytes as on
  the characters. The two methods that look at characters, \<^verbatim>\<open>upper()\<close> and \<^verbatim>\<open>strip()\<close>,
  first cut the bytes into characters: an ASCII byte alone, any other byte with the
  continuation bytes (\<open>0x80\<close> to \<open>0xBF\<close>) that follow it.
\<close>

definition is_ascii :: "char \<Rightarrow> bool" where
  "is_ascii c = ((of_char c :: nat) < 128)"

definition is_cont :: "char \<Rightarrow> bool" where
  "is_cont c = (128 \<le> (of_char c :: nat) \<and> (of_char c :: nat) < 192)"

function chars :: "string \<Rightarrow> string list" where
  "chars [] = []"
| "chars (c # cs) =
     (if is_ascii c then [c] # chars cs
      else (c # takeWhile is_cont cs) # chars (dropWhile is_cont cs))"
  by pat_completeness auto
termination
  by (relation "measure length") (auto simp add: length_dropWhile_le less_Suc_eq_le)

text \<open>
  \<^verbatim>\<open>upper()\<close> maps every character by itself: the ASCII letters a..z to A..Z, the other
  ASCII characters to themselves, a character outside ASCII by the Unicode tables.
\<close>

definition upper_char :: "char \<Rightarrow> char" where
  "upper_char c =
     (case map_of (zip ''abcdefghijklmnopqrstuvwxyz'' ''ABCDEFGHIJKLMNOPQRSTUVWXYZ'') c of
        Some u \<Rightarrow> u
      | None \<Rightarrow> c)"

definition upper_point :: "env \<Rightarrow> string \<Rightarrow> string" where
  "upper_point e p =
     (case p of
        [c] \<Rightarrow> if is_ascii c then [upper_char c] else upper_wide e p
      | _ \<Rightarrow> upper_wide e p)"

definition upper :: "env \<Rightarrow> string \<Rightarrow> string" where
  "upper e s = concat (map (upper_point e) (chars s))"

text \<open>
  \<^verbatim>\<open>strip()\<close> removes the white space at both ends. The white space of Python is the
  code points U+0009 to U+000D, U+001C to U+0020, U+0085, U+00A0, U+1680, U+2000 to
  U+200A, U+2028, U+2029, U+202F, U+205F and U+3000, listed here in UTF-8.
\<close>

definition whitespace :: "string list" where
  "whitespace =
     [[CHR 0x09], [CHR 0x0A], [CHR 0x0B], [CHR 0x0C], [CHR 0x0D],
      [CHR 0x1C], [CHR 0x1D], [CHR 0x1E], [CHR 0x1F], [CHR 0x20],
      [CHR 0xC2, CHR 0x85], [CHR 0xC2, CHR 0xA0], [CHR 0xE1, CHR 0x9A, CHR 0x80],
      [CHR 0xE2, CHR 0x80, CHR 0x80], [CHR 0xE2, CHR 0x80, CHR 0x81],
      [CHR 0xE2, CHR 0x80, CHR 0x82], [CHR 0xE2, CHR 0x80, CHR 0x83],
      [CHR 0xE2, CHR 0x80, CHR 0x84], [CHR 0xE2, CHR 0x80, CHR 0x85],
      [CHR 0xE2, CHR 0x80, CHR 0x86], [CHR 0xE2, CHR 0x80, CHR 0x87],
      [CHR 0xE2, CHR 0x80, CHR 0x88], [CHR 0xE2, CHR 0x80, CHR 0x89],
      [CHR 0xE2, CHR 0x80, CHR 0x8A], [CHR 0xE2, CHR 0x80, CHR 0xA8],
      [CHR 0xE2, CHR 0x80, CHR 0xA9], [CHR 0xE2, CHR 0x80, CHR 0xAF],
      [CHR 0xE2, CHR 0x81, CHR 0x9F], [CHR 0xE3, CHR 0x80, CHR 0x80]]"

definition isspace :: "string \<Rightarrow> bool" where
  "isspace p = (p \<in> set whitespace)"

definition strip :: "string \<Rightarrow> string" where
  "strip s = concat (rev (dropWhile isspace (rev (dropWhile isspace (chars s)))))"

definition endswith :: "string \<Rightarrow> string \<Rightarrow> bool" where
  "endswith s suffix = (take (length suffix) (rev s) = rev suffix)"

subsection \<open>Statements with effects\<close>

text \<open>
  A statement runs on a state and either returns a value or raises, leaving the state
  it reached: a raise does not undo the log lines written before it.
\<close>

type_synonym ('a, 's) prog = "'s \<Rightarrow> (exn + 'a) \<times> 's"

definition ret :: "'a \<Rightarrow> ('a, 's) prog" where
  "ret x = (\<lambda>s. (Inr x, s))"

definition raise :: "exn \<Rightarrow> ('a, 's) prog" where
  "raise e = (\<lambda>s. (Inl e, s))"

definition eval :: "exn + 'a \<Rightarrow> ('a, 's) prog" where
  "eval r = (\<lambda>s. (r, s))"

definition bind :: "('a, 's) prog \<Rightarrow> ('a \<Rightarrow> ('b, 's) prog) \<Rightarrow> ('b, 's) prog" where
  "bind m f = (\<lambda>s. case m s of (Inl e, s') \<Rightarrow> (Inl e, s') | (Inr x, s') \<Rightarrow> f x s')"

definition try_except :: "('a, 's) prog \<Rightarrow> (exn \<Rightarrow> ('a, 's) prog) \<Rightarrow> ('a, 's) prog" where
  "try_except m h = (\<lambda>s. case m s of (Inl e, s') \<Rightarrow> h e s' | (Inr x, s') \<Rightarrow> (Inr x, s'))"

text \<open>
  A log record is the call as the code makes it: the level, the format string and the
  arguments. Formatting belongs to the logging library.
\<close>

datatype level = INFO | WARNING | ERROR

datatype logarg = Val pyval | Dict pydict

record log_record =
  lvl :: level
  fmt :: string
  args :: "logarg list"

text \<open>
  The state of a bot: the records its logger has emitted, and the requests that reached
  \<^verbatim>\<open>client.futures_create_order\<close>, in order.
\<close>

record bot =
  logged :: "log_record list"
  orders_sent :: "pydict list"

definition logger :: "level \<Rightarrow> string \<Rightarrow> logarg list \<Rightarrow> (unit, bot) prog" where
  "logger l f as = (\<lambda>s. (Inr (), s\<lparr>logged := logged s @ [\<lparr>lvl = l, fmt = f, args = as\<rparr>]\<rparr>))"

definition create_order :: "client \<Rightarrow> pydict \<Rightarrow> (pydict, bot) prog" where
  "create_order c params =
     (\<lambda>s. (futures_create_order c params, s\<lparr>orders_sent := orders_sent s @ [params]\<rparr>))"

section \<open>\<^verbatim>\<open>BasicBot.place_order\<close>\<close>

text \<open>
  Lines 82 to 117 of \<^verbatim>\<open>trading_bot.py\<close>: the checks and the construction of the
  request. They touch neither the logger nor the client, so they are a function from
  the arguments to the request or the exception raised.
\<close>

definition validate_order ::
  "env \<Rightarrow> string \<Rightarrow> string \<Rightarrow> string \<Rightarrow> pyval \<Rightarrow> pyval \<Rightarrow> exn + pydict" where
  "validate_order e symbol0 side0 order_type0 quantity0 price0 =
    (let symbol = strip (upper e symbol0) in
     if \<not> endswith symbol ''USDT'' then
       Inl (ValueError ''Symbol must be a USDT-M pair (e.g., BTCUSDT)'')
     else
     let side = strip (upper e side0) in
     if side \<notin> set [''BUY'', ''SELL''] then
       Inl (ValueError (''Side must be '' @ sq @ ''BUY'' @ sq @ '' or '' @ sq @ ''SELL'' @ sq))
     else
     case py_float e quantity0 of Inl x \<Rightarrow> Inl x | Inr quantity \<Rightarrow>
     if le_zero quantity then Inl (ValueError ''Quantity must be positive'')
     else
     let order_type = strip (upper e order_type0) in
     if order_type \<notin> set [''MARKET'', ''LIMIT''] then
       Inl (ValueError ''Order type must be MARKET or LIMIT'')
     else
     let params = [(''symbol'', PyStr symbol), (''side'', PyStr side),
                   (''type'', PyStr order_type), (''quantity'', PyFloat quantity)] in
     if order_type = ''LIMIT'' then
       if price0 = PyNone then Inl (ValueError ''Price is required for limit orders'')
       else
       case py_float e price0 of Inl x \<Rightarrow> Inl x | Inr price \<Rightarrow>
       if le_zero price then Inl (ValueError ''Price must be positive'')
       else Inr (setitem (setitem params ''price'' (PyFloat price)) ''timeInForce'' (PyStr ''GTC''))
     else Inr params)"

text \<open>The body of the \<^verbatim>\<open>try\<close> (lines 81 to 122).\<close>

definition place_order_try ::
  "env \<Rightarrow> client \<Rightarrow> string \<Rightarrow> string \<Rightarrow> string \<Rightarrow> pyval \<Rightarrow> pyval \<Rightarrow> (pydict, bot) prog" where
  "place_order_try e c symbol side order_type quantity price =
     bind (eval (validate_order e symbol side order_type quantity price)) (\<lambda>params.
     bind (logger INFO ''Placing order: %s'' [Dict params]) (\<lambda>_.
     bind (create_order c params) (\<lambda>response.
     bind (logger INFO ''Order successful: %s'' [Dict response]) (\<lambda>_.
     ret response))))"

text \<open>The two handlers (lines 124 to 131), tried in the order of the source.\<close>

definition place_order_except :: "exn \<Rightarrow> (pydict, bot) prog" where
  "place_order_except x =
     (case x of
        BinanceAPIException status_code code message \<Rightarrow>
          (let error_msg = ''API Error '' @ str_int status_code @ '': '' @ message in
           bind (logger ERROR error_msg []) (\<lambda>_. raise (RuntimeError error_msg)))
      | _ \<Rightarrow>
          (let error_msg = ''Order failed: '' @ str_exn x in
           bind (logger ERROR error_msg []) (\<lambda>_. raise (RuntimeError error_msg))))"

definition place_order ::
  "env \<Rightarrow> client \<Rightarrow> string \<Rightarrow> string \<Rightarrow> string \<Rightarrow> pyval \<Rightarrow> pyval \<Rightarrow> (pydict, bot) prog" where
  "place_order e c symbol side order_type quantity price =
     try_except (place_order_try e c symbol side order_type quantity price) place_order_except"

text \<open>
  The handlers of \<^verbatim>\<open>main\<close> (lines 197 to 206): the label printed for an exception that
  leaves the \<^verbatim>\<open>try\<close> of \<^verbatim>\<open>main\<close>. Every branch exits with status 1. An instance of a
  subclass of \<^verbatim>\<open>ValueError\<close> or of \<^verbatim>\<open>RuntimeError\<close> is a \<open>ValueError\<close> or a
  \<open>RuntimeError\<close> of the model, so the third equation is reached by the other classes
  only.
\<close>

datatype label = Validation_Error | Trading_Error | Unexpected_Error

fun main_except :: "exn \<Rightarrow> label" where
  "main_except (ValueError m) = Validation_Error"
| "main_except (RuntimeError m) = Trading_Error"
| "main_except x = Unexpected_Error"

section \<open>The credential probe\<close>

text \<open>
  \<^verbatim>\<open>next((item for item in balance if item['asset'] == 'USDT'), None)\<close>: the first entry
  whose asset is USDT, \<^verbatim>\<open>None\<close> when the list has none. The generator reads the key of
  each entry it passes, so an entry without the key raises \<^verbatim>\<open>KeyError\<close> when it is
  reached.
\<close>

fun find_usdt :: "pydict list \<Rightarrow> exn + pydict option" where
  "find_usdt [] = Inr None"
| "find_usdt (item # balance) =
     (case getitem item ''asset'' of
        Inl x \<Rightarrow> Inl x
      | Inr a \<Rightarrow> if a = PyStr ''USDT'' then Inr (Some item) else find_usdt balance)"

text \<open>\<^verbatim>\<open>if usdt_balance:\<close> holds for a dict that is not empty, and not for \<^verbatim>\<open>None\<close>.\<close>

definition truthy :: "pydict option \<Rightarrow> bool" where
  "truthy v = (case v of None \<Rightarrow> False | Some d \<Rightarrow> d \<noteq> [])"

subsection \<open>\<^verbatim>\<open>BasicBot.test_connection\<close>\<close>

text \<open>The body of the \<^verbatim>\<open>try\<close> (lines 43 to 67 of \<^verbatim>\<open>trading_bot.py\<close>).\<close>

definition test_connection_try :: "env \<Rightarrow> client \<Rightarrow> (unit, bot) prog" where
  "test_connection_try e c =
     bind (eval (futures_ping c)) (\<lambda>_.
     let ping_time = elapsed_ms e in
     bind (eval (futures_time c)) (\<lambda>server_time.
     bind (eval (getitem server_time ''serverTime'')) (\<lambda>t.
     bind (eval (utc_time e t)) (\<lambda>human_time.
     bind (logger INFO ''API Connection Successful | Ping: %.2fms'' [Val (PyFloat ping_time)]) (\<lambda>_.
     bind (logger INFO ''Binance Server Time: %s UTC'' [Val (PyStr human_time)]) (\<lambda>_.
     bind (eval (futures_account c)) (\<lambda>account_info.
     bind (eval (getitem account_info ''canTrade'')) (\<lambda>can_trade.
     bind (logger INFO ''Account Status: CanTrade=%s'' [Val can_trade]) (\<lambda>_.
     bind (eval (futures_account_balance c)) (\<lambda>balance.
     bind (eval (find_usdt balance)) (\<lambda>usdt_balance.
     if truthy usdt_balance then
       (case usdt_balance of
          Some d \<Rightarrow>
            bind (eval (getitem d ''balance'')) (\<lambda>b.
            logger INFO ''Available Balance: %s USDT'' [Val b])
        | None \<Rightarrow> ret ())
     else logger WARNING ''No USDT balance found'' [])))))))))))"

text \<open>The two handlers (lines 69 to 74): each logs and re-raises the exception it caught.\<close>

definition test_connection_except :: "exn \<Rightarrow> (unit, bot) prog" where
  "test_connection_except x =
     (case x of
        BinanceAPIException status_code code message \<Rightarrow>
          bind (logger ERROR ''API Error: %s - %s'' [Val (PyInt status_code), Val (PyStr message)])
            (\<lambda>_. raise x)
      | _ \<Rightarrow>
          bind (logger ERROR ''Connection test failed: %s'' [Val (PyStr (str_exn x))])
            (\<lambda>_. raise x))"

definition test_connection :: "env \<Rightarrow> client \<Rightarrow> (unit, bot) prog" where
  "test_connection e c = try_except (test_connection_try e c) test_connection_except"

subsection \<open>\<^verbatim>\<open>test_api_credentials\<close>\<close>

text \<open>
  The stand-alone probe prints instead of logging. A printed line is the text of the
  f-string as the source has it (a line feed where the source writes \<^verbatim>\<open>\n\<close>), with the
  values it interpolates; the state is the console. The argument \<open>connect\<close> is the outcome of constructing the client
  (\<^verbatim>\<open>Client(api_key=..., api_secret=..., testnet=True, tld='us')\<close>), which happens
  inside the \<^verbatim>\<open>try\<close>.
\<close>

type_synonym console = "(string \<times> pyval list) list"

definition print :: "string \<Rightarrow> pyval list \<Rightarrow> (unit, console) prog" where
  "print text vs = (\<lambda>out. (Inr (), out @ [(text, vs)]))"

definition test_api_credentials_try :: "env \<Rightarrow> exn + client \<Rightarrow> (bool, console) prog" where
  "test_api_credentials_try e connect =
     bind (print ''Testing Binance API credentials...'' []) (\<lambda>_.
     bind (eval connect) (\<lambda>c.
     bind (eval (futures_ping c)) (\<lambda>_.
     let ping_time = elapsed_ms e in
     bind (print ''[SUCCESS] API Connectivity: Working (Ping: {ping_time:.2f}ms)''
             [PyFloat ping_time]) (\<lambda>_.
     bind (eval (futures_time c)) (\<lambda>server_time.
     bind (eval (getitem server_time ''serverTime'')) (\<lambda>t.
     bind (eval (utc_time e t)) (\<lambda>human_time.
     bind (print ''[SUCCESS] Server Time: {human_time} UTC'' [PyStr human_time]) (\<lambda>_.
     bind (eval (futures_account c)) (\<lambda>account_info.
     bind (print ''[SUCCESS] Account Information Received'' []) (\<lambda>_.
     bind (eval (getitem account_info ''canTrade'')) (\<lambda>can_trade.
     bind (print (''    Can Trade: {account_info['' @ sq @ ''canTrade'' @ sq @ '']}'') [can_trade]) (\<lambda>_.
     bind (eval (getitem account_info ''canWithdraw'')) (\<lambda>can_withdraw.
     bind (print (''    Can Withdraw: {account_info['' @ sq @ ''canWithdraw'' @ sq @ '']}'') [can_withdraw]) (\<lambda>_.
     bind (eval (getitem account_info ''canDeposit'')) (\<lambda>can_deposit.
     bind (print (''    Can Deposit: {account_info['' @ sq @ ''canDeposit'' @ sq @ '']}'') [can_deposit]) (\<lambda>_.
     bind (eval (futures_account_balance c)) (\<lambda>balance.
     bind (eval (find_usdt balance)) (\<lambda>usdt_balance.
     bind (if truthy usdt_balance then
             (case usdt_balance of
                Some d \<Rightarrow>
                  bind (eval (getitem d ''balance'')) (\<lambda>b.
                  print (''[SUCCESS] USDT Balance: {usdt_balance['' @ sq @ ''balance'' @ sq @ '']}'') [b])
              | None \<Rightarrow> ret ())
           else print ''[WARNING] No USDT balance found'' []) (\<lambda>_.
     bind (print (CHR 0x0A # ''[SUCCESS] All tests passed! Credentials are valid.'') []) (\<lambda>_.
     ret True))))))))))))))))))))"

text \<open>The handler (lines 49 to 51) prints the failure and returns \<^verbatim>\<open>False\<close>.\<close>

definition test_api_credentials_except :: "exn \<Rightarrow> (bool, console) prog" where
  "test_api_credentials_except x =
     bind (print (CHR 0x0A # ''[ERROR] Credential Test Failed: {str(e)}'') [PyStr (str_exn x)]) (\<lambda>_.
     ret False)"

definition test_api_credentials :: "env \<Rightarrow> exn + client \<Rightarrow> (bool, console) prog" where
  "test_api_credentials e connect =
     try_except (test_api_credentials_try e connect) test_api_credentials_except"

section \<open>Examples and auxiliary notions\<close>

text \<open>
  Two strings that differ in the case of ASCII letters only: they have the same
  length and, position by position, the same byte or the two cases of one letter.
\<close>

definition same_letter :: "char \<Rightarrow> char \<Rightarrow> bool" where
  "same_letter a b =
     (a = b
      \<or> (a, b) \<in> set (zip ''abcdefghijklmnopqrstuvwxyz'' ''ABCDEFGHIJKLMNOPQRSTUVWXYZ'')
      \<or> (b, a) \<in> set (zip ''abcdefghijklmnopqrstuvwxyz'' ''ABCDEFGHIJKLMNOPQRSTUVWXYZ''))"

definition caseless :: "string \<Rightarrow> string \<Rightarrow> bool" where
  "caseless s t = list_all2 same_letter s t"

text \<open>The requests a run has added to those sent before it.\<close>

definition issued :: "bot \<Rightarrow> bot \<Rightarrow> pydict list" where
  "issued s s' = drop (length (orders_sent s)) (orders_sent s')"

text \<open>
  A concrete environment, clients and bot, for the examples. The \<^verbatim>\<open>float()\<close> of the
  environment is Python's on the values the examples pass: a boolean, an integer up to
  \<open>2 ^ 53\<close> in absolute value (converted exactly) and a string of letters (rejected with
  the message that quotes it); it is not meant to be Python's on other values. Its
  \<open>upper_wide\<close> leaves a character as it is, and the examples use ASCII text only. One
  exchange accepts every order, one rejects every order with HTTP status 400, one drops
  the connection when an order is placed. The balance list of the accepting exchange
  has no USDT entry.
\<close>

definition example_env :: env where
  "example_env =
     \<lparr>float_conv = (\<lambda>v. case v of
          PyBool b \<Rightarrow> Inr (Fin (if b then 1 else 0))
        | PyInt i \<Rightarrow>
            if \<bar>i\<bar> \<le> 2 ^ 53 then Inr (Fin (of_int i))
            else Inl (OtherException ''int too large to convert to float'')
        | PyStr s \<Rightarrow> Inl (ValueError (''could not convert string to float: '' @ sq @ s @ sq))
        | _ \<Rightarrow> Inl (TypeError ''float() argument must be a string or a real number'')),
      utc_time = (\<lambda>v. Inr ''2025-01-01 00:00:00''),
      elapsed_ms = Fin 12,
      upper_wide = (\<lambda>p. p)\<rparr>"

definition example_order :: pydict where
  "example_order = [(''orderId'', PyInt 1), (''status'', PyStr ''NEW'')]"

definition accepting_client :: client where
  "accepting_client =
     \<lparr>futures_ping = Inr [],
      futures_time = Inr [(''serverTime'', PyInt 1735689600000)],
      futures_account = Inr [(''canTrade'', PyBool True), (''canWithdraw'', PyBool True),
                             (''canDeposit'', PyBool True)],
      futures_account_balance = Inr [[(''asset'', PyStr ''BNB''), (''balance'', PyStr ''0.0'')]],
      futures_create_order = (\<lambda>params. Inr example_order)\<rparr>"

definition rejecting_client :: client where
  "rejecting_client =
     accepting_client\<lparr>futures_create_order :=
       (\<lambda>params. Inl (BinanceAPIException 400 (- 2019) ''Margin is insufficient.''))\<rparr>"

definition offline_client :: client where
  "offline_client =
     accepting_client\<lparr>futures_create_order :=
       (\<lambda>params. Inl (OtherException ''Connection aborted.''))\<rparr>"

text \<open>An exchange whose ping fails, and one that refuses the credentials.\<close>

definition unreachable_client :: client where
  "unreachable_client =
     accepting_client\<lparr>futures_ping := Inl (OtherException ''Connection refused'')\<rparr>"

definition unauthorized_client :: client where
  "unauthorized_client =
     accepting_client\<lparr>futures_account :=
       Inl (BinanceAPIException 401 (- 2015) ''Invalid API-key, IP, or permissions for action.'')\<rparr>"

text \<open>An exchange whose answer to the time request lacks the field the probe reads.\<close>

definition clockless_client :: client where
  "clockless_client = accepting_client\<lparr>futures_time := Inr []\<rparr>"

definition fresh_bot :: bot where
  "fresh_bot = \<lparr>logged = [], orders_sent = []\<rparr>"

section \<open>Properties of \<^verbatim>\<open>place_order\<close>\<close>

subsection \<open>How a call unfolds\<close>

lemma place_order_invalid:
  "validate_order e symbol side order_type quantity price = Inl x \<Longrightarrow>
   place_order e c symbol side order_type quantity price s = place_order_except x s"
  by (simp add: place_order_def place_order_try_def try_except_def bind_def eval_def)

lemma place_order_except_eq:
  "place_order_except x s =
     (let error_msg =
        (case x of
           BinanceAPIException status_code code message \<Rightarrow>
             ''API Error '' @ str_int status_code @ '': '' @ message
         | _ \<Rightarrow> ''Order failed: '' @ str_exn x)
      in (Inl (RuntimeError error_msg),
          s\<lparr>logged := logged s @ [\<lparr>lvl = ERROR, fmt = error_msg, args = []\<rparr>]\<rparr>))"
  by (cases x) (simp_all add: place_order_except_def bind_def logger_def raise_def Let_def)

lemma place_order_valid:
  "validate_order e symbol side order_type quantity price = Inr params \<Longrightarrow>
   place_order e c symbol side order_type quantity price s =
     (let s1 = s\<lparr>logged := logged s @ [\<lparr>lvl = INFO, fmt = ''Placing order: %s'', args = [Dict params]\<rparr>],
                  orders_sent := orders_sent s @ [params]\<rparr>
      in case futures_create_order c params of
           Inl x \<Rightarrow> place_order_except x s1
         | Inr response \<Rightarrow>
             (Inr response, s1\<lparr>logged := logged s1 @
                [\<lparr>lvl = INFO, fmt = ''Order successful: %s'', args = [Dict response]\<rparr>]\<rparr>))"
  by (simp add: place_order_def place_order_try_def try_except_def bind_def eval_def logger_def
      create_order_def ret_def Let_def split: sum.splits)

lemma orders_sent_place_order_except: "orders_sent (snd (place_order_except x s)) = orders_sent s"
  by (simp add: place_order_except_eq Let_def)

lemma same_letter_cases:
  "same_letter a b \<Longrightarrow> a = b \<or> (is_ascii a \<and> is_ascii b \<and> upper_char a = upper_char b)"
  apply (simp only: same_letter_def zip_Cons_Cons zip_Nil list.set insert_iff empty_iff
      prod.inject)
  apply (elim disjE conjE)
  apply (simp_all add: upper_char_def is_ascii_def)
  done

lemma is_cont_wide: "is_cont c \<Longrightarrow> \<not> is_ascii c"
  by (simp add: is_cont_def is_ascii_def)

lemma same_letter_wide: "same_letter a b \<Longrightarrow> \<not> is_ascii a \<Longrightarrow> a = b"
  using same_letter_cases by blast

lemma same_letter_is_cont: "same_letter a b \<Longrightarrow> is_cont a = is_cont b"
  using same_letter_cases is_cont_wide by blast

lemma caseless_takeWhile:
  "list_all2 same_letter cs ds \<Longrightarrow> takeWhile is_cont cs = takeWhile is_cont ds"
proof (induction rule: list_all2_induct)
  case Nil
  show ?case by simp
next
  case (Cons x xs y ys)
  show ?case
  proof (cases "is_cont x")
    case True
    with Cons.hyps(1) have "x = y"
      using same_letter_wide is_cont_wide by blast
    with True Cons.IH show ?thesis by simp
  next
    case False
    with Cons.hyps(1) have "\<not> is_cont y"
      using same_letter_is_cont by blast
    with False show ?thesis by simp
  qed
qed

lemma caseless_dropWhile:
  "list_all2 same_letter cs ds \<Longrightarrow>
   list_all2 same_letter (dropWhile is_cont cs) (dropWhile is_cont ds)"
proof (induction rule: list_all2_induct)
  case Nil
  show ?case by simp
next
  case (Cons x xs y ys)
  from Cons.hyps(1) have "is_cont x = is_cont y"
    by (rule same_letter_is_cont)
  with Cons show ?case by simp
qed

lemma caseless_chars:
  "list_all2 same_letter s t \<Longrightarrow> map (upper_point e) (chars s) = map (upper_point e) (chars t)"
proof (induction s arbitrary: t rule: chars.induct)
  case 1
  then show ?case by simp
next
  case (2 c cs)
  from "2.prems" obtain d ds where t: "t = d # ds" and cd: "same_letter c d"
    and rest: "list_all2 same_letter cs ds"
    by (auto simp add: list_all2_Cons1)
  show ?case
  proof (cases "is_ascii c")
    case True
    with cd have d: "is_ascii d" and u: "upper_char c = upper_char d"
      using same_letter_cases by blast+
    from "2.IH"(1) [OF True rest] True d u t show ?thesis
      by (simp add: upper_point_def)
  next
    case False
    with cd have "c = d"
      using same_letter_wide by blast
    with "2.IH"(2) [OF False caseless_dropWhile [OF rest]] caseless_takeWhile [OF rest] False t
    show ?thesis by simp
  qed
qed

lemma caseless_upper: "caseless s t \<Longrightarrow> upper e s = upper e t"
  by (simp add: caseless_def upper_def caseless_chars)

lemma norm_BTCEUR: "strip (upper e ''BTCEUR'') = ''BTCEUR''"
  by (simp add: strip_def upper_def upper_point_def upper_char_def isspace_def whitespace_def
      is_ascii_def)

lemma norm_BTCUSDT: "strip (upper e ''BTCUSDT'') = ''BTCUSDT''"
  by (simp add: strip_def upper_def upper_point_def upper_char_def isspace_def whitespace_def
      is_ascii_def)

lemma norm_btcusdt: "strip (upper e ''btcusdt'') = ''BTCUSDT''"
  by (simp add: strip_def upper_def upper_point_def upper_char_def isspace_def whitespace_def
      is_ascii_def)

lemma norm_buy: "strip (upper e ''buy'') = ''BUY''"
  by (simp add: strip_def upper_def upper_point_def upper_char_def isspace_def whitespace_def
      is_ascii_def)

lemma norm_BUY: "strip (upper e ''BUY'') = ''BUY''"
  by (simp add: strip_def upper_def upper_point_def upper_char_def isspace_def whitespace_def
      is_ascii_def)

lemma norm_market: "strip (upper e ''market'') = ''MARKET''"
  by (simp add: strip_def upper_def upper_point_def upper_char_def isspace_def whitespace_def
      is_ascii_def)

lemma norm_MARKET: "strip (upper e ''MARKET'') = ''MARKET''"
  by (simp add: strip_def upper_def upper_point_def upper_char_def isspace_def whitespace_def
      is_ascii_def)

lemma norm_limit: "strip (upper e ''limit'') = ''LIMIT''"
  by (simp add: strip_def upper_def upper_point_def upper_char_def isspace_def whitespace_def
      is_ascii_def)

lemmas norms = norm_BTCEUR norm_BTCUSDT norm_btcusdt norm_buy norm_BUY norm_market norm_MARKET
  norm_limit

lemma example_market_order:
  "validate_order e ''BTCUSDT'' ''buy'' ''market'' (PyFloat (Fin (1/1000))) PyNone =
     Inr [(''symbol'', PyStr ''BTCUSDT''), (''side'', PyStr ''BUY''), (''type'', PyStr ''MARKET''),
          (''quantity'', PyFloat (Fin (1/1000)))]"
  by (simp add: validate_order_def norms endswith_def py_float_def)

lemma str_int_400: "str_int 400 = ''400''"
  by (simp add: str_int_def)

lemma issued_place_order:
  "issued s (snd (place_order e c symbol side order_type quantity price s)) =
     (case validate_order e symbol side order_type quantity price of
        Inl x \<Rightarrow> [] | Inr params \<Rightarrow> [params])"
proof (cases "validate_order e symbol side order_type quantity price")
  case (Inl x)
  then show ?thesis
    by (simp add: issued_def place_order_invalid orders_sent_place_order_except)
next
  case (Inr params)
  then show ?thesis
    by (simp add: issued_def place_order_valid Let_def orders_sent_place_order_except
        split: sum.splits)
qed

subsection \<open>Local rejections\<close>

text \<open>
  Claim C1. A symbol that does not end in USDT after normalisation is rejected without
  any request to the exchange, but the \<^verbatim>\<open>ValueError\<close> raised at line 84 is caught by the
  \<^verbatim>\<open>except Exception\<close> of line 128: for \<^verbatim>\<open>place_order("BTCEUR", "buy", "market", 0.001)\<close>
  the caller receives \<^verbatim>\<open>RuntimeError("Order failed: Symbol must be a USDT-M pair (e.g.,
  BTCUSDT)")\<close>, one error record is logged and the list of requests sent is unchanged.
\<close>

theorem place_order_bad_symbol_is_RuntimeError:
  "place_order e c ''BTCEUR'' ''buy'' ''market'' (PyFloat (Fin (1/1000))) PyNone s =
     (Inl (RuntimeError ''Order failed: Symbol must be a USDT-M pair (e.g., BTCUSDT)''),
      s\<lparr>logged := logged s @
        [\<lparr>lvl = ERROR, fmt = ''Order failed: Symbol must be a USDT-M pair (e.g., BTCUSDT)'', args = []\<rparr>]\<rparr>)"
proof -
  have "validate_order e ''BTCEUR'' ''buy'' ''market'' (PyFloat (Fin (1/1000))) PyNone =
          Inl (ValueError ''Symbol must be a USDT-M pair (e.g., BTCUSDT)'')"
    by (simp add: validate_order_def norms endswith_def)
  then show ?thesis
    by (simp add: place_order_invalid place_order_except_eq Let_def)
qed

text \<open>
  Claim C3. A limit order without a price is rejected without any request, and again
  the \<^verbatim>\<open>ValueError\<close> of line 110 reaches the caller as a \<^verbatim>\<open>RuntimeError\<close>: this is
  \<^verbatim>\<open>place_order("BTCUSDT", "buy", "limit", 0.001)\<close>.
\<close>

theorem place_order_limit_without_price_is_RuntimeError:
  "place_order e c ''BTCUSDT'' ''buy'' ''limit'' (PyFloat (Fin (1/1000))) PyNone s =
     (Inl (RuntimeError ''Order failed: Price is required for limit orders''),
      s\<lparr>logged := logged s @
        [\<lparr>lvl = ERROR, fmt = ''Order failed: Price is required for limit orders'', args = []\<rparr>]\<rparr>)"
proof -
  have "validate_order e ''BTCUSDT'' ''buy'' ''limit'' (PyFloat (Fin (1/1000))) PyNone =
          Inl (ValueError ''Price is required for limit orders'')"
    by (simp add: validate_order_def norms endswith_def py_float_def)
  then show ?thesis
    by (simp add: place_order_invalid place_order_except_eq Let_def)
qed

text \<open>
  Claim C4. A quantity that is not positive is rejected without any request, and the
  \<^verbatim>\<open>ValueError\<close> of line 92 reaches the caller as a \<^verbatim>\<open>RuntimeError\<close>: this is
  \<^verbatim>\<open>place_order("BTCUSDT", "buy", "market", -1)\<close>.
\<close>

theorem place_order_nonpositive_quantity_is_RuntimeError:
  "place_order e c ''BTCUSDT'' ''buy'' ''market'' (PyFloat (Fin (- 1))) PyNone s =
     (Inl (RuntimeError ''Order failed: Quantity must be positive''),
      s\<lparr>logged := logged s @
        [\<lparr>lvl = ERROR, fmt = ''Order failed: Quantity must be positive'', args = []\<rparr>]\<rparr>)"
proof -
  have "validate_order e ''BTCUSDT'' ''buy'' ''market'' (PyFloat (Fin (- 1))) PyNone =
          Inl (ValueError ''Quantity must be positive'')"
    by (simp add: validate_order_def norms endswith_def py_float_def)
  then show ?thesis
    by (simp add: place_order_invalid place_order_except_eq Let_def)
qed

subsection \<open>Failure translation\<close>

text \<open>
  Claim C2. When the request passes the checks and the exchange call raises, the
  caller receives a \<^verbatim>\<open>RuntimeError\<close>: for a \<^verbatim>\<open>BinanceAPIException\<close> its message is
  \<^verbatim>\<open>API Error <status_code>: <message>\<close>, for any other exception it is
  \<^verbatim>\<open>Order failed: <str(e)>\<close>. On both paths the same message is logged at level ERROR
  as the last record, after the record of the request, and the request was sent once.
\<close>

theorem place_order_remote_failure:
  assumes "validate_order e symbol side order_type quantity price = Inr params"
    and "futures_create_order c params = Inl x"
  shows "place_order e c symbol side order_type quantity price s =
     (let error_msg =
        (case x of
           BinanceAPIException status_code code message \<Rightarrow>
             ''API Error '' @ str_int status_code @ '': '' @ message
         | _ \<Rightarrow> ''Order failed: '' @ str_exn x)
      in (Inl (RuntimeError error_msg),
          s\<lparr>logged := logged s @
               [\<lparr>lvl = INFO, fmt = ''Placing order: %s'', args = [Dict params]\<rparr>,
                \<lparr>lvl = ERROR, fmt = error_msg, args = []\<rparr>],
            orders_sent := orders_sent s @ [params]\<rparr>))"
  using assms by (simp add: place_order_valid place_order_except_eq Let_def)

theorem place_order_remote_failure_witness:
  "place_order example_env rejecting_client ''BTCUSDT'' ''buy'' ''market''
       (PyFloat (Fin (1/1000))) PyNone fresh_bot =
     (Inl (RuntimeError ''API Error 400: Margin is insufficient.''),
      \<lparr>logged =
         [\<lparr>lvl = INFO, fmt = ''Placing order: %s'', args =
             [Dict [(''symbol'', PyStr ''BTCUSDT''), (''side'', PyStr ''BUY''),
                    (''type'', PyStr ''MARKET''), (''quantity'', PyFloat (Fin (1/1000)))]]\<rparr>,
          \<lparr>lvl = ERROR, fmt = ''API Error 400: Margin is insufficient.'', args = []\<rparr>],
       orders_sent =
         [[(''symbol'', PyStr ''BTCUSDT''), (''side'', PyStr ''BUY''),
           (''type'', PyStr ''MARKET''), (''quantity'', PyFloat (Fin (1/1000)))]]\<rparr>)
   \<and> place_order example_env offline_client ''BTCUSDT'' ''buy'' ''market''
       (PyFloat (Fin (1/1000))) PyNone fresh_bot =
     (Inl (RuntimeError ''Order failed: Connection aborted.''),
      \<lparr>logged =
         [\<lparr>lvl = INFO, fmt = ''Placing order: %s'', args =
             [Dict [(''symbol'', PyStr ''BTCUSDT''), (''side'', PyStr ''BUY''),
                    (''type'', PyStr ''MARKET''), (''quantity'', PyFloat (Fin (1/1000)))]]\<rparr>,
          \<lparr>lvl = ERROR, fmt = ''Order failed: Connection aborted.'', args = []\<rparr>],
       orders_sent =
         [[(''symbol'', PyStr ''BTCUSDT''), (''side'', PyStr ''BUY''),
           (''type'', PyStr ''MARKET''), (''quantity'', PyFloat (Fin (1/1000)))]]\<rparr>)"
proof -
  let ?req = "[(''symbol'', PyStr ''BTCUSDT''), (''side'', PyStr ''BUY''),
               (''type'', PyStr ''MARKET''), (''quantity'', PyFloat (Fin (1/1000)))]"
  have r: "futures_create_order rejecting_client ?req =
             Inl (BinanceAPIException 400 (- 2019) ''Margin is insufficient.'')"
    by (simp add: rejecting_client_def)
  have f: "futures_create_order offline_client ?req = Inl (OtherException ''Connection aborted.'')"
    by (simp add: offline_client_def)
  show ?thesis
    using place_order_remote_failure [OF example_market_order r, of example_env fresh_bot]
      place_order_remote_failure [OF example_market_order f, of example_env fresh_bot]
    by (simp add: fresh_bot_def str_int_400 Let_def)
qed

subsection \<open>Market orders\<close>

text \<open>
  Claim C5. For a market order that passes the checks (symbol ending in USDT, side BUY
  or SELL, quantity coerced to a float that is not \<^verbatim>\<open><= 0\<close>), whatever is passed as price,
  the request is exactly the four fields symbol, side, type and quantity, in this order:
  no price and no timeInForce. That request is the one sent to the exchange.
\<close>

theorem market_request_fields:
  assumes "endswith (strip (upper e symbol)) ''USDT''"
    and "strip (upper e side) = ''BUY'' \<or> strip (upper e side) = ''SELL''"
    and "py_float e quantity = Inr q"
    and "\<not> le_zero q"
    and "strip (upper e order_type) = ''MARKET''"
  shows "validate_order e symbol side order_type quantity price =
           Inr [(''symbol'', PyStr (strip (upper e symbol))), (''side'', PyStr (strip (upper e side))),
                (''type'', PyStr ''MARKET''), (''quantity'', PyFloat q)]
       \<and> orders_sent (snd (place_order e c symbol side order_type quantity price s)) =
           orders_sent s @
             [[(''symbol'', PyStr (strip (upper e symbol))), (''side'', PyStr (strip (upper e side))),
               (''type'', PyStr ''MARKET''), (''quantity'', PyFloat q)]]"
proof -
  have v: "validate_order e symbol side order_type quantity price =
           Inr [(''symbol'', PyStr (strip (upper e symbol))), (''side'', PyStr (strip (upper e side))),
                (''type'', PyStr ''MARKET''), (''quantity'', PyFloat q)]"
    using assms by (auto simp add: validate_order_def Let_def)
  show ?thesis
    by (simp add: v place_order_valid [OF v] Let_def orders_sent_place_order_except split: sum.splits)
qed

theorem market_request_fields_witness:
  "validate_order example_env ''btcusdt'' ''buy'' ''market'' (PyFloat (Fin (1/1000)))
       (PyFloat (Fin 50000)) =
     Inr [(''symbol'', PyStr ''BTCUSDT''), (''side'', PyStr ''BUY''), (''type'', PyStr ''MARKET''),
          (''quantity'', PyFloat (Fin (1/1000)))]
   \<and> orders_sent (snd (place_order example_env accepting_client ''btcusdt'' ''buy'' ''market''
       (PyFloat (Fin (1/1000))) (PyFloat (Fin 50000)) fresh_bot)) =
     [[(''symbol'', PyStr ''BTCUSDT''), (''side'', PyStr ''BUY''), (''type'', PyStr ''MARKET''),
       (''quantity'', PyFloat (Fin (1/1000)))]]"
proof -
  have 1: "endswith (strip (upper example_env ''btcusdt'')) ''USDT''"
    by (simp add: norms endswith_def)
  have 2: "strip (upper example_env ''buy'') = ''BUY'' \<or> strip (upper example_env ''buy'') = ''SELL''"
    by (simp add: norms)
  have 3: "py_float example_env (PyFloat (Fin (1/1000))) = Inr (Fin (1/1000))"
    by (simp add: py_float_def)
  have 4: "\<not> le_zero (Fin (1/1000))"
    by simp
  have 5: "strip (upper example_env ''market'') = ''MARKET''"
    by (simp add: norms)
  show ?thesis
    using market_request_fields [OF 1 2 3 4 5, of "PyFloat (Fin 50000)" accepting_client fresh_bot]
    by (simp add: norms fresh_bot_def)
qed

subsection \<open>Case of the arguments\<close>

text \<open>
  Claim C8. The checks do not see the case of ASCII letters: two calls whose symbol,
  side and order type differ in case only build the same request or raise the same
  exception, and behave alike on every bot, exchange and environment. In particular
  \<^verbatim>\<open>place_order("btcusdt", "buy", "market", 0.001)\<close> and
  \<^verbatim>\<open>place_order("BTCUSDT", "BUY", "MARKET", 0.001)\<close> both build, and both send to the
  exchange, the request with symbol BTCUSDT, side BUY, type MARKET and the quantity.
\<close>

theorem place_order_case_insensitive:
  "(caseless symbol symbol' \<longrightarrow> caseless side side' \<longrightarrow> caseless order_type order_type' \<longrightarrow>
      validate_order e symbol side order_type quantity price =
        validate_order e symbol' side' order_type' quantity price
      \<and> place_order e c symbol side order_type quantity price s =
        place_order e c symbol' side' order_type' quantity price s)
   \<and> validate_order e ''btcusdt'' ''buy'' ''market'' (PyFloat (Fin (1/1000))) PyNone =
       Inr [(''symbol'', PyStr ''BTCUSDT''), (''side'', PyStr ''BUY''), (''type'', PyStr ''MARKET''),
            (''quantity'', PyFloat (Fin (1/1000)))]
   \<and> validate_order e ''BTCUSDT'' ''BUY'' ''MARKET'' (PyFloat (Fin (1/1000))) PyNone =
       Inr [(''symbol'', PyStr ''BTCUSDT''), (''side'', PyStr ''BUY''), (''type'', PyStr ''MARKET''),
            (''quantity'', PyFloat (Fin (1/1000)))]
   \<and> orders_sent (snd (place_order e c ''btcusdt'' ''buy'' ''market''
         (PyFloat (Fin (1/1000))) PyNone s)) =
       orders_sent s @
         [[(''symbol'', PyStr ''BTCUSDT''), (''side'', PyStr ''BUY''), (''type'', PyStr ''MARKET''),
           (''quantity'', PyFloat (Fin (1/1000)))]]
   \<and> orders_sent (snd (place_order e c ''BTCUSDT'' ''BUY'' ''MARKET''
         (PyFloat (Fin (1/1000))) PyNone s)) =
       orders_sent s @
         [[(''symbol'', PyStr ''BTCUSDT''), (''side'', PyStr ''BUY''), (''type'', PyStr ''MARKET''),
           (''quantity'', PyFloat (Fin (1/1000)))]]"
proof -
  let ?req = "[(''symbol'', PyStr ''BTCUSDT''), (''side'', PyStr ''BUY''), (''type'', PyStr ''MARKET''),
            (''quantity'', PyFloat (Fin (1/1000)))]"
  have g: "validate_order e symbol side order_type quantity price =
        validate_order e symbol' side' order_type' quantity price
      \<and> place_order e c symbol side order_type quantity price s =
        place_order e c symbol' side' order_type' quantity price s"
    if "caseless symbol symbol'" "caseless side side'" "caseless order_type order_type'"
  proof -
    have v: "validate_order e symbol side order_type quantity price =
        validate_order e symbol' side' order_type' quantity price"
      unfolding validate_order_def caseless_upper [OF that(1)] caseless_upper [OF that(2)]
        caseless_upper [OF that(3)]
      by (rule refl)
    then show ?thesis
      by (simp add: place_order_def place_order_try_def)
  qed
  have a: "validate_order e ''btcusdt'' ''buy'' ''market'' (PyFloat (Fin (1/1000))) PyNone = Inr ?req"
    by (simp add: validate_order_def norms endswith_def py_float_def)
  have b: "validate_order e ''BTCUSDT'' ''BUY'' ''MARKET'' (PyFloat (Fin (1/1000))) PyNone = Inr ?req"
    by (simp add: validate_order_def norms endswith_def py_float_def)
  have sa: "orders_sent (snd (place_order e c ''btcusdt'' ''buy'' ''market''
         (PyFloat (Fin (1/1000))) PyNone s)) = orders_sent s @ [?req]"
    by (simp add: a place_order_valid [OF a] Let_def orders_sent_place_order_except
        split: sum.splits)
  have sb: "orders_sent (snd (place_order e c ''BTCUSDT'' ''BUY'' ''MARKET''
         (PyFloat (Fin (1/1000))) PyNone s)) = orders_sent s @ [?req]"
    by (simp add: b place_order_valid [OF b] Let_def orders_sent_place_order_except
        split: sum.splits)
  from g a b sa sb show ?thesis
    by blast
qed

theorem place_order_case_insensitive_witness:
  "caseless ''btcusdt'' ''BTCUSDT'' \<and> caseless ''buy'' ''BUY'' \<and> caseless ''market'' ''MARKET''
   \<and> place_order example_env accepting_client ''btcusdt'' ''buy'' ''market''
        (PyFloat (Fin (1/1000))) PyNone fresh_bot =
     place_order example_env accepting_client ''BTCUSDT'' ''BUY'' ''MARKET''
        (PyFloat (Fin (1/1000))) PyNone fresh_bot
   \<and> orders_sent (snd (place_order example_env accepting_client ''btcusdt'' ''buy'' ''market''
         (PyFloat (Fin (1/1000))) PyNone fresh_bot)) =
       [[(''symbol'', PyStr ''BTCUSDT''), (''side'', PyStr ''BUY''), (''type'', PyStr ''MARKET''),
         (''quantity'', PyFloat (Fin (1/1000)))]]"
proof -
  have 1: "caseless ''btcusdt'' ''BTCUSDT''"
    by (simp add: caseless_def same_letter_def)
  have 2: "caseless ''buy'' ''BUY''"
    by (simp add: caseless_def same_letter_def)
  have 3: "caseless ''market'' ''MARKET''"
    by (simp add: caseless_def same_letter_def)
  show ?thesis
    using 1 2 3 place_order_case_insensitive [where symbol = "''btcusdt''"
        and symbol' = "''BTCUSDT''" and side = "''buy''" and side' = "''BUY''"
        and order_type = "''market''" and order_type' = "''MARKET''" and e = example_env
        and c = accepting_client and s = fresh_bot and quantity = "PyFloat (Fin (1/1000))"
        and price = PyNone]
    by (simp add: fresh_bot_def)
qed

subsection \<open>No hidden state in the checks\<close>

text \<open>
  Claim C9. The requests that a call issues are determined by its arguments alone:
  two calls with the same arguments issue the same requests whatever the state of the
  bot before each call (in particular the state the first call left) and whatever the
  exchange answers; a call issues the request its checks built, or none when they
  rejected the arguments.
\<close>

theorem validation_stateless:
  "issued s1 (snd (place_order e c1 symbol side order_type quantity price s1)) =
   issued s2 (snd (place_order e c2 symbol side order_type quantity price s2))
   \<and> issued s1 (snd (place_order e c1 symbol side order_type quantity price s1)) =
       (case validate_order e symbol side order_type quantity price of
          Inl x \<Rightarrow> [] | Inr params \<Rightarrow> [params])"
  by (simp add: issued_place_order)

subsection \<open>The exception the caller sees\<close>

text \<open>
  Claim C10. Whenever \<^verbatim>\<open>place_order\<close> fails, the exception that reaches the caller is a
  \<^verbatim>\<open>RuntimeError\<close>, whether a check failed, \<^verbatim>\<open>float()\<close> raised or the exchange call
  raised; \<^verbatim>\<open>main\<close> therefore labels every such failure a trading error.
\<close>

theorem place_order_failure_is_RuntimeError:
  assumes "fst (place_order e c symbol side order_type quantity price s) = Inl x"
  shows "(\<exists>m. x = RuntimeError m) \<and> main_except x = Trading_Error"
proof -
  have ex: "\<exists>m. fst (place_order_except y t) = Inl (RuntimeError m)" for y t
    by (simp add: place_order_except_eq Let_def)
  have "\<exists>m. x = RuntimeError m"
  proof (cases "validate_order e symbol side order_type quantity price")
    case (Inl y)
    with assms ex [of y s] show ?thesis
      by (auto simp add: place_order_invalid)
  next
    case (Inr params)
    show ?thesis
    proof (cases "futures_create_order c params")
      case (Inl y)
      let ?s1 = "s\<lparr>logged := logged s @
          [\<lparr>lvl = INFO, fmt = ''Placing order: %s'', args = [Dict params]\<rparr>],
        orders_sent := orders_sent s @ [params]\<rparr>"
      from Inl Inr assms have "fst (place_order_except y ?s1) = Inl x"
        by (simp add: place_order_valid Let_def)
      with ex [of y ?s1] show ?thesis
        by auto
    next
      case r: (Inr response)
      with Inr assms show ?thesis
        by (simp add: place_order_valid Let_def)
    qed
  qed
  then show ?thesis by auto
qed

theorem place_order_failure_is_RuntimeError_witness:
  "fst (place_order example_env accepting_client ''BTCUSDT'' ''buy'' ''market'' (PyStr ''abc'') PyNone
          fresh_bot) = Inl (RuntimeError (''Order failed: could not convert string to float: '' @ sq @ ''abc'' @ sq))
   \<and> main_except (RuntimeError (''Order failed: could not convert string to float: '' @ sq @ ''abc'' @ sq)) = Trading_Error"
proof -
  have "validate_order example_env ''BTCUSDT'' ''buy'' ''market'' (PyStr ''abc'') PyNone =
          Inl (ValueError (''could not convert string to float: '' @ sq @ ''abc'' @ sq))"
    by (simp add: validate_order_def norms endswith_def py_float_def example_env_def)
  then have h: "fst (place_order example_env accepting_client ''BTCUSDT'' ''buy'' ''market''
      (PyStr ''abc'') PyNone fresh_bot) = Inl (RuntimeError (''Order failed: could not convert string to float: '' @ sq @ ''abc'' @ sq))"
    by (simp add: place_order_invalid place_order_except_eq Let_def)
  from place_order_failure_is_RuntimeError [OF h] h show ?thesis by simp
qed

section \<open>Properties of the credential probe\<close>

subsection \<open>How a run unfolds\<close>

lemma find_usdt_absent:
  "\<forall>item \<in> set balance. \<exists>a. getitem item ''asset'' = Inr a \<and> a \<noteq> PyStr ''USDT'' \<Longrightarrow>
   find_usdt balance = Inr None"
  by (induction balance) auto

lemma test_connection_no_usdt:
  assumes "futures_ping c = Inr pong"
    and "futures_time c = Inr server_time"
    and "getitem server_time ''serverTime'' = Inr t"
    and "utc_time e t = Inr human_time"
    and "futures_account c = Inr account_info"
    and "getitem account_info ''canTrade'' = Inr can_trade"
    and "futures_account_balance c = Inr balance"
    and "find_usdt balance = Inr None"
  shows "test_connection e c s =
      (Inr (), s\<lparr>logged := logged s @
         [\<lparr>lvl = INFO, fmt = ''API Connection Successful | Ping: %.2fms'',
            args = [Val (PyFloat (elapsed_ms e))]\<rparr>,
          \<lparr>lvl = INFO, fmt = ''Binance Server Time: %s UTC'', args = [Val (PyStr human_time)]\<rparr>,
          \<lparr>lvl = INFO, fmt = ''Account Status: CanTrade=%s'', args = [Val can_trade]\<rparr>,
          \<lparr>lvl = WARNING, fmt = ''No USDT balance found'', args = []\<rparr>]\<rparr>)"
  using assms
  by (simp add: test_connection_def test_connection_try_def try_except_def bind_def eval_def
      logger_def truthy_def Let_def)

lemma test_api_credentials_no_usdt:
  assumes "futures_ping c = Inr pong"
    and "futures_time c = Inr server_time"
    and "getitem server_time ''serverTime'' = Inr t"
    and "utc_time e t = Inr human_time"
    and "futures_account c = Inr account_info"
    and "getitem account_info ''canTrade'' = Inr can_trade"
    and "getitem account_info ''canWithdraw'' = Inr can_withdraw"
    and "getitem account_info ''canDeposit'' = Inr can_deposit"
    and "futures_account_balance c = Inr balance"
    and "find_usdt balance = Inr None"
  shows "test_api_credentials e (Inr c) out =
      (Inr True, out @
         [(''Testing Binance API credentials...'', []),
          (''[SUCCESS] API Connectivity: Working (Ping: {ping_time:.2f}ms)'', [PyFloat (elapsed_ms e)]),
          (''[SUCCESS] Server Time: {human_time} UTC'', [PyStr human_time]),
          (''[SUCCESS] Account Information Received'', []),
          ((''    Can Trade: {account_info['' @ sq @ ''canTrade'' @ sq @ '']}''), [can_trade]),
          ((''    Can Withdraw: {account_info['' @ sq @ ''canWithdraw'' @ sq @ '']}''), [can_withdraw]),
          ((''    Can Deposit: {account_info['' @ sq @ ''canDeposit'' @ sq @ '']}''), [can_deposit]),
          (''[WARNING] No USDT balance found'', []),
          ((CHR 0x0A # ''[SUCCESS] All tests passed! Credentials are valid.''), [])])"
  using assms
  by (simp add: test_api_credentials_def test_api_credentials_try_def try_except_def bind_def
      eval_def print_def truthy_def ret_def Let_def)

lemma test_connection_except_eq:
  "test_connection_except x t =
     (Inl x, t\<lparr>logged := logged t @
        [case x of
           BinanceAPIException status_code code message \<Rightarrow>
             \<lparr>lvl = ERROR, fmt = ''API Error: %s - %s'',
              args = [Val (PyInt status_code), Val (PyStr message)]\<rparr>
         | _ \<Rightarrow>
             \<lparr>lvl = ERROR, fmt = ''Connection test failed: %s'', args = [Val (PyStr (str_exn x))]\<rparr>]\<rparr>)"
  by (cases x) (simp_all add: test_connection_except_def bind_def logger_def raise_def)

lemma test_api_credentials_raises:
  "fst (test_api_credentials_try e connect out) = Inl x \<Longrightarrow>
   test_api_credentials e connect out =
     (Inr False, snd (test_api_credentials_try e connect out) @
        [((CHR 0x0A # ''[ERROR] Credential Test Failed: {str(e)}''), [PyStr (str_exn x)])])"
  by (cases "test_api_credentials_try e connect out")
    (simp add: test_api_credentials_def try_except_def test_api_credentials_except_def bind_def
      print_def ret_def)

lemma api_ping_aborts:
  "futures_ping c = Inl x \<Longrightarrow>
   test_api_credentials_try e (Inr c) out =
     (Inl x, out @ [(''Testing Binance API credentials...'', [])])"
  by (simp add: test_api_credentials_try_def bind_def eval_def print_def)

lemma find_usdt_found: "find_usdt balance = Inr (Some d) \<Longrightarrow> d \<noteq> []"
  by (induction balance) (auto simp add: getitem_def split: option.splits if_splits)

lemma test_connection_steps:
  "(futures_ping c = Inl x \<longrightarrow>
       test_connection e c s = test_connection_except x s)
   \<and> (futures_ping c = Inr pong \<longrightarrow>
    (futures_time c = Inl x \<longrightarrow>
        test_connection e c s = test_connection_except x s)
    \<and> (futures_time c = Inr server_time \<longrightarrow>
     (getitem server_time ''serverTime'' = Inl x \<longrightarrow>
         test_connection e c s = test_connection_except x s)
     \<and> (getitem server_time ''serverTime'' = Inr ms \<longrightarrow>
      (utc_time e ms = Inl x \<longrightarrow>
          test_connection e c s = test_connection_except x s)
      \<and> (utc_time e ms = Inr human_time \<longrightarrow>
       (let s1 = s\<lparr>logged := logged s @
       [\<lparr>lvl = INFO, fmt = ''API Connection Successful | Ping: %.2fms'',
          args = [Val (PyFloat (elapsed_ms e))]\<rparr>,
        \<lparr>lvl = INFO, fmt = ''Binance Server Time: %s UTC'',
          args = [Val (PyStr human_time)]\<rparr>]\<rparr>
       in (futures_account c = Inl x \<longrightarrow>
            test_connection e c s = test_connection_except x s1)
        \<and> (futures_account c = Inr account_info \<longrightarrow>
         (getitem account_info ''canTrade'' = Inl x \<longrightarrow>
             test_connection e c s = test_connection_except x s1)
         \<and> (getitem account_info ''canTrade'' = Inr can_trade \<longrightarrow>
          (let s2 = s1\<lparr>logged := logged s1 @
       [\<lparr>lvl = INFO, fmt = ''Account Status: CanTrade=%s'',
          args = [Val can_trade]\<rparr>]\<rparr>
          in (futures_account_balance c = Inl x \<longrightarrow>
               test_connection e c s = test_connection_except x s2)
           \<and> (futures_account_balance c = Inr balance \<longrightarrow>
            (find_usdt balance = Inl x \<longrightarrow>
                test_connection e c s = test_connection_except x s2)
            \<and> (find_usdt balance = Inr (Some d) \<longrightarrow>
                getitem d ''balance'' = Inl x \<longrightarrow>
                test_connection e c s = test_connection_except x s2))))))))))"
  by (auto simp add: test_connection_def test_connection_try_def try_except_def bind_def
      eval_def logger_def truthy_def Let_def dest: find_usdt_found)

lemma test_api_credentials_except_eq:
  "test_api_credentials_except x out' =
     (Inr False, out' @ [(CHR 0x0A # ''[ERROR] Credential Test Failed: {str(e)}'',
                          [PyStr (str_exn x)])])"
  by (simp add: test_api_credentials_except_def bind_def print_def ret_def)

lemma test_api_credentials_steps:
  "(let o1 = out @ [(''Testing Binance API credentials...'', [])]
   in (connect = Inl x \<longrightarrow>
        test_api_credentials e connect out = test_api_credentials_except x o1)
    \<and> (connect = Inr c \<longrightarrow>
     (futures_ping c = Inl x \<longrightarrow>
         test_api_credentials e connect out = test_api_credentials_except x o1)
     \<and> (futures_ping c = Inr pong \<longrightarrow>
      (let o2 = o1 @ [(''[SUCCESS] API Connectivity: Working (Ping: {ping_time:.2f}ms)'',
       [PyFloat (elapsed_ms e)])]
      in (futures_time c = Inl x \<longrightarrow>
           test_api_credentials e connect out = test_api_credentials_except x o2)
       \<and> (futures_time c = Inr server_time \<longrightarrow>
        (getitem server_time ''serverTime'' = Inl x \<longrightarrow>
            test_api_credentials e connect out = test_api_credentials_except x o2)
        \<and> (getitem server_time ''serverTime'' = Inr ms \<longrightarrow>
         (utc_time e ms = Inl x \<longrightarrow>
             test_api_credentials e connect out = test_api_credentials_except x o2)
         \<and> (utc_time e ms = Inr human_time \<longrightarrow>
          (let o3 = o2 @ [(''[SUCCESS] Server Time: {human_time} UTC'', [PyStr human_time])]
          in (futures_account c = Inl x \<longrightarrow>
               test_api_credentials e connect out = test_api_credentials_except x o3)
           \<and> (futures_account c = Inr account_info \<longrightarrow>
            (let o4 = o3 @ [(''[SUCCESS] Account Information Received'', [])]
            in (getitem account_info ''canTrade'' = Inl x \<longrightarrow>
                 test_api_credentials e connect out = test_api_credentials_except x o4)
             \<and> (getitem account_info ''canTrade'' = Inr can_trade \<longrightarrow>
              (let o5 = o4 @ [((''    Can Trade: {account_info['' @ sq @ ''canTrade'' @ sq @ '']}''), [can_trade])]
              in (getitem account_info ''canWithdraw'' = Inl x \<longrightarrow>
                   test_api_credentials e connect out = test_api_credentials_except x o5)
               \<and> (getitem account_info ''canWithdraw'' = Inr can_withdraw \<longrightarrow>
                (let o6 = o5 @ [((''    Can Withdraw: {account_info['' @ sq @ ''canWithdraw'' @ sq @ '']}''),
       [can_withdraw])]
                in (getitem account_info ''canDeposit'' = Inl x \<longrightarrow>
                     test_api_credentials e connect out = test_api_credentials_except x o6)
                 \<and> (getitem account_info ''canDeposit'' = Inr can_deposit \<longrightarrow>
                  (let o7 = o6 @ [((''    Can Deposit: {account_info['' @ sq @ ''canDeposit'' @ sq @ '']}''),
       [can_deposit])]
                  in (futures_account_balance c = Inl x \<longrightarrow>
                       test_api_credentials e connect out = test_api_credentials_except x o7)
                   \<and> (futures_account_balance c = Inr balance \<longrightarrow>
                    (find_usdt balance = Inl x \<longrightarrow>
                        test_api_credentials e connect out = test_api_credentials_except x o7)
                    \<and> (find_usdt balance = Inr (Some d) \<longrightarrow>
                        getitem d ''balance'' = Inl x \<longrightarrow>
                        test_api_credentials e connect out = test_api_credentials_except x o7))))))))))))))))))"
  by (auto simp add: test_api_credentials_def test_api_credentials_try_def try_except_def bind_def
      eval_def print_def truthy_def Let_def dest: find_usdt_found)

lemma str_int_minus_2015: "str_int (- 2015) = ''-2015''"
  by (simp add: str_int_def)

subsection \<open>A balance list without USDT\<close>

text \<open>
  Claim C6. When ping, server time and account status succeed and the balance list has
  no entry whose asset is USDT (every entry carries an asset, and none is USDT), the
  search yields \<^verbatim>\<open>None\<close>, \<^verbatim>\<open>test_connection\<close> returns without raising after logging three
  records at level INFO and then \<^verbatim>\<open>No USDT balance found\<close> at level WARNING, with no
  record at level ERROR; and \<^verbatim>\<open>test_api_credentials\<close>, when the account answer also has
  the withdraw and deposit flags, prints the warning line, then the success line, and
  returns \<^verbatim>\<open>True\<close>.
\<close>

theorem probe_without_usdt_balance:
  assumes "futures_ping c = Inr pong"
    and "futures_time c = Inr server_time"
    and "getitem server_time ''serverTime'' = Inr t"
    and "utc_time e t = Inr human_time"
    and "futures_account c = Inr account_info"
    and "getitem account_info ''canTrade'' = Inr can_trade"
    and "futures_account_balance c = Inr balance"
    and "\<forall>item \<in> set balance. \<exists>a. getitem item ''asset'' = Inr a \<and> a \<noteq> PyStr ''USDT''"
  shows "find_usdt balance = Inr None
    \<and> test_connection e c s =
      (Inr (), s\<lparr>logged := logged s @
         [\<lparr>lvl = INFO, fmt = ''API Connection Successful | Ping: %.2fms'',
            args = [Val (PyFloat (elapsed_ms e))]\<rparr>,
          \<lparr>lvl = INFO, fmt = ''Binance Server Time: %s UTC'', args = [Val (PyStr human_time)]\<rparr>,
          \<lparr>lvl = INFO, fmt = ''Account Status: CanTrade=%s'', args = [Val can_trade]\<rparr>,
          \<lparr>lvl = WARNING, fmt = ''No USDT balance found'', args = []\<rparr>]\<rparr>)
    \<and> (getitem account_info ''canWithdraw'' = Inr can_withdraw \<longrightarrow>
       getitem account_info ''canDeposit'' = Inr can_deposit \<longrightarrow>
       test_api_credentials e (Inr c) out =
        (Inr True, out @
         [(''Testing Binance API credentials...'', []),
          (''[SUCCESS] API Connectivity: Working (Ping: {ping_time:.2f}ms)'', [PyFloat (elapsed_ms e)]),
          (''[SUCCESS] Server Time: {human_time} UTC'', [PyStr human_time]),
          (''[SUCCESS] Account Information Received'', []),
          ((''    Can Trade: {account_info['' @ sq @ ''canTrade'' @ sq @ '']}''), [can_trade]),
          ((''    Can Withdraw: {account_info['' @ sq @ ''canWithdraw'' @ sq @ '']}''), [can_withdraw]),
          ((''    Can Deposit: {account_info['' @ sq @ ''canDeposit'' @ sq @ '']}''), [can_deposit]),
          (''[WARNING] No USDT balance found'', []),
          ((CHR 0x0A # ''[SUCCESS] All tests passed! Credentials are valid.''), [])]))"
proof -
  have n: "find_usdt balance = Inr None"
    using assms(8) by (rule find_usdt_absent)
  note a = assms(1-7)
  have "test_connection e c s =
      (Inr (), s\<lparr>logged := logged s @
         [\<lparr>lvl = INFO, fmt = ''API Connection Successful | Ping: %.2fms'',
            args = [Val (PyFloat (elapsed_ms e))]\<rparr>,
          \<lparr>lvl = INFO, fmt = ''Binance Server Time: %s UTC'', args = [Val (PyStr human_time)]\<rparr>,
          \<lparr>lvl = INFO, fmt = ''Account Status: CanTrade=%s'', args = [Val can_trade]\<rparr>,
          \<lparr>lvl = WARNING, fmt = ''No USDT balance found'', args = []\<rparr>]\<rparr>)"
    by (rule test_connection_no_usdt [OF a n])
  moreover have "test_api_credentials e (Inr c) out =
        (Inr True, out @
         [(''Testing Binance API credentials...'', []),
          (''[SUCCESS] API Connectivity: Working (Ping: {ping_time:.2f}ms)'', [PyFloat (elapsed_ms e)]),
          (''[SUCCESS] Server Time: {human_time} UTC'', [PyStr human_time]),
          (''[SUCCESS] Account Information Received'', []),
          ((''    Can Trade: {account_info['' @ sq @ ''canTrade'' @ sq @ '']}''), [can_trade]),
          ((''    Can Withdraw: {account_info['' @ sq @ ''canWithdraw'' @ sq @ '']}''), [can_withdraw]),
          ((''    Can Deposit: {account_info['' @ sq @ ''canDeposit'' @ sq @ '']}''), [can_deposit]),
          (''[WARNING] No USDT balance found'', []),
          ((CHR 0x0A # ''[SUCCESS] All tests passed! Credentials are valid.''), [])])"
    if "getitem account_info ''canWithdraw'' = Inr can_withdraw"
      and "getitem account_info ''canDeposit'' = Inr can_deposit"
    by (rule test_api_credentials_no_usdt [OF a(1-6) that a(7) n])
  ultimately show ?thesis
    using n by blast
qed

theorem probe_without_usdt_balance_witness:
  "find_usdt [[(''asset'', PyStr ''BNB''), (''balance'', PyStr ''0.0'')]] = Inr None
   \<and> test_connection example_env accepting_client fresh_bot =
      (Inr (), \<lparr>logged =
         [\<lparr>lvl = INFO, fmt = ''API Connection Successful | Ping: %.2fms'',
            args = [Val (PyFloat (Fin 12))]\<rparr>,
          \<lparr>lvl = INFO, fmt = ''Binance Server Time: %s UTC'',
            args = [Val (PyStr ''2025-01-01 00:00:00'')]\<rparr>,
          \<lparr>lvl = INFO, fmt = ''Account Status: CanTrade=%s'', args = [Val (PyBool True)]\<rparr>,
          \<lparr>lvl = WARNING, fmt = ''No USDT balance found'', args = []\<rparr>],
         orders_sent = []\<rparr>)
   \<and> fst (test_api_credentials example_env (Inr accepting_client) []) = Inr True"
proof -
  have 1: "futures_ping accepting_client = Inr []"
    by (simp add: accepting_client_def)
  have 2: "futures_time accepting_client = Inr [(''serverTime'', PyInt 1735689600000)]"
    by (simp add: accepting_client_def)
  have 3: "getitem [(''serverTime'', PyInt 1735689600000)] ''serverTime'' = Inr (PyInt 1735689600000)"
    by (simp add: getitem_def)
  have 4: "utc_time example_env (PyInt 1735689600000) = Inr ''2025-01-01 00:00:00''"
    by (simp add: example_env_def)
  have 5: "futures_account accepting_client =
      Inr [(''canTrade'', PyBool True), (''canWithdraw'', PyBool True), (''canDeposit'', PyBool True)]"
    by (simp add: accepting_client_def)
  have 6: "getitem [(''canTrade'', PyBool True), (''canWithdraw'', PyBool True),
      (''canDeposit'', PyBool True)] ''canTrade'' = Inr (PyBool True)"
    by (simp add: getitem_def)
  have 7: "futures_account_balance accepting_client =
      Inr [[(''asset'', PyStr ''BNB''), (''balance'', PyStr ''0.0'')]]"
    by (simp add: accepting_client_def)
  have 8: "\<forall>item \<in> set [[(''asset'', PyStr ''BNB''), (''balance'', PyStr ''0.0'')]].
      \<exists>a. getitem item ''asset'' = Inr a \<and> a \<noteq> PyStr ''USDT''"
    by (simp add: getitem_def)
  show ?thesis
    using probe_without_usdt_balance [OF 1 2 3 4 5 6 7 8, where s = fresh_bot and out = "[]"
        and can_withdraw = "PyBool True" and can_deposit = "PyBool True"]
    by (simp add: getitem_def example_env_def fresh_bot_def)
qed

subsection \<open>A step that raises\<close>

text \<open>
  Claim C7, as the code has it. The stand-alone probe does not let the exception
  through: when the ping raises, the body of its \<^verbatim>\<open>try\<close> raises and
  \<^verbatim>\<open>test_api_credentials\<close> returns \<^verbatim>\<open>False\<close>.
\<close>

theorem test_api_credentials_swallows_exception:
  "fst (test_api_credentials_try example_env (Inr unreachable_client) []) =
     Inl (OtherException ''Connection refused'')
   \<and> fst (test_api_credentials example_env (Inr unreachable_client) []) = Inr False"
proof -
  have p: "futures_ping unreachable_client = Inl (OtherException ''Connection refused'')"
    by (simp add: unreachable_client_def)
  have t: "fst (test_api_credentials_try example_env (Inr unreachable_client) []) =
     Inl (OtherException ''Connection refused'')"
    by (simp add: api_ping_aborts [OF p])
  show ?thesis
    by (simp add: t test_api_credentials_raises [OF t])
qed

text \<open>
  Claim C7, amended. In \<^verbatim>\<open>test_connection\<close>, whichever step raises (one of the four
  remote calls, the lookup of \<^verbatim>\<open>serverTime\<close> or \<^verbatim>\<open>canTrade\<close>, the conversion of the
  time, the search of the balance list, the lookup of \<^verbatim>\<open>balance\<close>), the steps after it do
  not run, the handler logs one record at level ERROR after the records of the steps
  before, and the same exception is raised again to the caller. In
  \<^verbatim>\<open>test_api_credentials\<close>, whichever step raises (the construction of the client
  included), the steps after it do not run either, but the exception does not reach the
  caller: one error line is printed after the lines of the steps before, and \<^verbatim>\<open>False\<close> is
  returned. Each step is stated under the success of the steps before it.
\<close>

theorem probe_failure_handling:
  "(test_connection_except x t =
     (Inl x, t\<lparr>logged := logged t @
        [case x of
           BinanceAPIException status_code code message \<Rightarrow>
             \<lparr>lvl = ERROR, fmt = ''API Error: %s - %s'',
              args = [Val (PyInt status_code), Val (PyStr message)]\<rparr>
         | _ \<Rightarrow>
             \<lparr>lvl = ERROR, fmt = ''Connection test failed: %s'',
              args = [Val (PyStr (str_exn x))]\<rparr>]\<rparr>))
   \<and> ((futures_ping c = Inl x \<longrightarrow>
       test_connection e c s = test_connection_except x s)
   \<and> (futures_ping c = Inr pong \<longrightarrow>
    (futures_time c = Inl x \<longrightarrow>
        test_connection e c s = test_connection_except x s)
    \<and> (futures_time c = Inr server_time \<longrightarrow>
     (getitem server_time ''serverTime'' = Inl x \<longrightarrow>
         test_connection e c s = test_connection_except x s)
     \<and> (getitem server_time ''serverTime'' = Inr ms \<longrightarrow>
      (utc_time e ms = Inl x \<longrightarrow>
          test_connection e c s = test_connection_except x s)
      \<and> (utc_time e ms = Inr human_time \<longrightarrow>
       (let s1 = s\<lparr>logged := logged s @
       [\<lparr>lvl = INFO, fmt = ''API Connection Successful | Ping: %.2fms'',
          args = [Val (PyFloat (elapsed_ms e))]\<rparr>,
        \<lparr>lvl = INFO, fmt = ''Binance Server Time: %s UTC'',
          args = [Val (PyStr human_time)]\<rparr>]\<rparr>
       in (futures_account c = Inl x \<longrightarrow>
            test_connection e c s = test_connection_except x s1)
        \<and> (futures_account c = Inr account_info \<longrightarrow>
         (getitem account_info ''canTrade'' = Inl x \<longrightarrow>
             test_connection e c s = test_connection_except x s1)
         \<and> (getitem account_info ''canTrade'' = Inr can_trade \<longrightarrow>
          (let s2 = s1\<lparr>logged := logged s1 @
       [\<lparr>lvl = INFO, fmt = ''Account Status: CanTrade=%s'',
          args = [Val can_trade]\<rparr>]\<rparr>
          in (futures_account_balance c = Inl x \<longrightarrow>
               test_connection e c s = test_connection_except x s2)
           \<and> (futures_account_balance c = Inr balance \<longrightarrow>
            (find_usdt balance = Inl x \<longrightarrow>
                test_connection e c s = test_connection_except x s2)
            \<and> (find_usdt balance = Inr (Some d) \<longrightarrow>
                getitem d ''balance'' = Inl x \<longrightarrow>
                test_connection e c s = test_connection_except x s2)))))))))))
   \<and> (test_api_credentials_except x out' =
     (Inr False, out' @ [(CHR 0x0A # ''[ERROR] Credential Test Failed: {str(e)}'',
                          [PyStr (str_exn x)])]))
   \<and> ((let o1 = out @ [(''Testing Binance API credentials...'', [])]
   in (connect = Inl x \<longrightarrow>
        test_api_credentials e connect out = test_api_credentials_except x o1)
    \<and> (connect = Inr c \<longrightarrow>
     (futures_ping c = Inl x \<longrightarrow>
         test_api_credentials e connect out = test_api_credentials_except x o1)
     \<and> (futures_ping c = Inr pong \<longrightarrow>
      (let o2 = o1 @ [(''[SUCCESS] API Connectivity: Working (Ping: {ping_time:.2f}ms)'',
       [PyFloat (elapsed_ms e)])]
      in (futures_time c = Inl x \<longrightarrow>
           test_api_credentials e connect out = test_api_credentials_except x o2)
       \<and> (futures_time c = Inr server_time \<longrightarrow>
        (getitem server_time ''serverTime'' = Inl x \<longrightarrow>
            test_api_credentials e connect out = test_api_credentials_except x o2)
        \<and> (getitem server_time ''serverTime'' = Inr ms \<longrightarrow>
         (utc_time e ms = Inl x \<longrightarrow>
             test_api_credentials e connect out = test_api_credentials_except x o2)
         \<and> (utc_time e ms = Inr human_time \<longrightarrow>
          (let o3 = o2 @ [(''[SUCCESS] Server Time: {human_time} UTC'', [PyStr human_time])]
          in (futures_account c = Inl x \<longrightarrow>
               test_api_credentials e connect out = test_api_credentials_except x o3)
           \<and> (futures_account c = Inr account_info \<longrightarrow>
            (let o4 = o3 @ [(''[SUCCESS] Account Information Received'', [])]
            in (getitem account_info ''canTrade'' = Inl x \<longrightarrow>
                 test_api_credentials e connect out = test_api_credentials_except x o4)
             \<and> (getitem account_info ''canTrade'' = Inr can_trade \<longrightarrow>
              (let o5 = o4 @ [((''    Can Trade: {account_info['' @ sq @ ''canTrade'' @ sq @ '']}''), [can_trade])]
              in (getitem account_info ''canWithdraw'' = Inl x \<longrightarrow>
                   test_api_credentials e connect out = test_api_credentials_except x o5)
               \<and> (getitem account_info ''canWithdraw'' = Inr can_withdraw \<longrightarrow>
                (let o6 = o5 @ [((''    Can Withdraw: {account_info['' @ sq @ ''canWithdraw'' @ sq @ '']}''),
       [can_withdraw])]
                in (getitem account_info ''canDeposit'' = Inl x \<longrightarrow>
                     test_api_credentials e connect out = test_api_credentials_except x o6)
                 \<and> (getitem account_info ''canDeposit'' = Inr can_deposit \<longrightarrow>
                  (let o7 = o6 @ [((''    Can Deposit: {account_info['' @ sq @ ''canDeposit'' @ sq @ '']}''),
       [can_deposit])]
                  in (futures_account_balance c = Inl x \<longrightarrow>
                       test_api_credentials e connect out = test_api_credentials_except x o7)
                   \<and> (futures_account_balance c = Inr balance \<longrightarrow>
                    (find_usdt balance = Inl x \<longrightarrow>
                        test_api_credentials e connect out = test_api_credentials_except x o7)
                    \<and> (find_usdt balance = Inr (Some d) \<longrightarrow>
                        getitem d ''balance'' = Inl x \<longrightarrow>
                        test_api_credentials e connect out = test_api_credentials_except x o7)))))))))))))))))))"
  by (intro conjI test_connection_except_eq test_connection_steps
      test_api_credentials_except_eq test_api_credentials_steps)

theorem probe_failure_handling_witness:
  "test_connection example_env unauthorized_client fresh_bot =
     (Inl (BinanceAPIException 401 (- 2015) ''Invalid API-key, IP, or permissions for action.''),
      \<lparr>logged =
         [\<lparr>lvl = INFO, fmt = ''API Connection Successful | Ping: %.2fms'',
            args = [Val (PyFloat (Fin 12))]\<rparr>,
          \<lparr>lvl = INFO, fmt = ''Binance Server Time: %s UTC'',
            args = [Val (PyStr ''2025-01-01 00:00:00'')]\<rparr>,
          \<lparr>lvl = ERROR, fmt = ''API Error: %s - %s'',
            args = [Val (PyInt 401),
                    Val (PyStr ''Invalid API-key, IP, or permissions for action.'')]\<rparr>],
       orders_sent = []\<rparr>)
   \<and> test_connection example_env clockless_client fresh_bot =
     (Inl (KeyError ''serverTime''),
      \<lparr>logged =
         [\<lparr>lvl = ERROR, fmt = ''Connection test failed: %s'',
            args = [Val (PyStr (sq @ ''serverTime'' @ sq))]\<rparr>],
       orders_sent = []\<rparr>)
   \<and> test_api_credentials example_env (Inr unauthorized_client) [] =
     (Inr False,
      [(''Testing Binance API credentials...'', []),
       (''[SUCCESS] API Connectivity: Working (Ping: {ping_time:.2f}ms)'', [PyFloat (Fin 12)]),
       (''[SUCCESS] Server Time: {human_time} UTC'', [PyStr ''2025-01-01 00:00:00'']),
       (CHR 0x0A # ''[ERROR] Credential Test Failed: {str(e)}'',
        [PyStr ''APIError(code=-2015): Invalid API-key, IP, or permissions for action.''])])
   \<and> test_api_credentials example_env (Inr clockless_client) [] =
     (Inr False,
      [(''Testing Binance API credentials...'', []),
       (''[SUCCESS] API Connectivity: Working (Ping: {ping_time:.2f}ms)'', [PyFloat (Fin 12)]),
       (CHR 0x0A # ''[ERROR] Credential Test Failed: {str(e)}'',
        [PyStr (sq @ ''serverTime'' @ sq)])])"
proof -
  let ?x = "BinanceAPIException 401 (- 2015) ''Invalid API-key, IP, or permissions for action.''"
  note A = probe_failure_handling [where x = ?x and e = example_env and c = unauthorized_client
      and s = fresh_bot and pong = "[]" and server_time = "[(''serverTime'', PyInt 1735689600000)]"
      and ms = "PyInt 1735689600000" and human_time = "''2025-01-01 00:00:00''"
      and connect = "Inr unauthorized_client" and out = "[]"]
  note B = probe_failure_handling [where x = "KeyError ''serverTime''" and e = example_env
      and c = clockless_client and s = fresh_bot and pong = "[]" and server_time = "[]"
      and connect = "Inr clockless_client" and out = "[]"]
  have a: "futures_ping unauthorized_client = Inr []"
    "futures_time unauthorized_client = Inr [(''serverTime'', PyInt 1735689600000)]"
    "getitem [(''serverTime'', PyInt 1735689600000)] ''serverTime'' = Inr (PyInt 1735689600000)"
    "utc_time example_env (PyInt 1735689600000) = Inr ''2025-01-01 00:00:00''"
    "futures_account unauthorized_client = Inl ?x"
    by (simp_all add: unauthorized_client_def accepting_client_def getitem_def example_env_def)
  have b: "futures_ping clockless_client = Inr []" "futures_time clockless_client = Inr []"
    "getitem [] ''serverTime'' = Inl (KeyError ''serverTime'')"
    by (simp_all add: clockless_client_def accepting_client_def getitem_def)
  have 1: "test_connection example_env unauthorized_client fresh_bot =
      test_connection_except ?x (fresh_bot\<lparr>logged := logged fresh_bot @
       [\<lparr>lvl = INFO, fmt = ''API Connection Successful | Ping: %.2fms'',
          args = [Val (PyFloat (elapsed_ms example_env))]\<rparr>,
        \<lparr>lvl = INFO, fmt = ''Binance Server Time: %s UTC'',
          args = [Val (PyStr ''2025-01-01 00:00:00'')]\<rparr>]\<rparr>)"
    using A a by (simp add: Let_def)
  have 2: "test_connection example_env clockless_client fresh_bot =
      test_connection_except (KeyError ''serverTime'') fresh_bot"
    using B b by (simp add: Let_def)
  have 3: "test_api_credentials example_env (Inr unauthorized_client) [] =
      test_api_credentials_except ?x
        [(''Testing Binance API credentials...'', []),
         (''[SUCCESS] API Connectivity: Working (Ping: {ping_time:.2f}ms)'',
          [PyFloat (elapsed_ms example_env)]),
         (''[SUCCESS] Server Time: {human_time} UTC'', [PyStr ''2025-01-01 00:00:00''])]"
    using A a by (simp add: Let_def)
  have 4: "test_api_credentials example_env (Inr clockless_client) [] =
      test_api_credentials_except (KeyError ''serverTime'')
        [(''Testing Binance API credentials...'', []),
         (''[SUCCESS] API Connectivity: Working (Ping: {ping_time:.2f}ms)'',
          [PyFloat (elapsed_ms example_env)])]"
    using B b by (simp add: Let_def)
  have h: "test_connection_except ?x t = (Inl ?x, t\<lparr>logged := logged t @
        [\<lparr>lvl = ERROR, fmt = ''API Error: %s - %s'',
           args = [Val (PyInt 401),
                   Val (PyStr ''Invalid API-key, IP, or permissions for action.'')]\<rparr>]\<rparr>)" for t
    using probe_failure_handling [where x = ?x and t = t] by simp
  have k: "test_connection_except (KeyError ''serverTime'') t = (Inl (KeyError ''serverTime''),
      t\<lparr>logged := logged t @
        [\<lparr>lvl = ERROR, fmt = ''Connection test failed: %s'',
           args = [Val (PyStr (sq @ ''serverTime'' @ sq))]\<rparr>]\<rparr>)" for t
    using probe_failure_handling [where x = "KeyError ''serverTime''" and t = t] by simp
  have h': "test_api_credentials_except y w =
     (Inr False, w @ [(CHR 0x0A # ''[ERROR] Credential Test Failed: {str(e)}'',
                          [PyStr (str_exn y)])])" for y w
    using probe_failure_handling [where x = y and out' = w] by simp
  show ?thesis
    unfolding 1 2 3 4 h k h'
    by (simp add: fresh_bot_def example_env_def str_int_minus_2015)
qed

end
